theory Spec2Isabelle
  imports Main
begin

section \<open>The workout screen of app/start-workout/[templateId].tsx\<close>

text \<open>
  The screen is a React function component. Its state is a handful of \<open>useState\<close> cells;
  every handler reads the cells of the render it was created in and queues updates. The
  model is a record of the cells and one function per handler that returns the record
  after the queued updates have been applied in the order the handler queued them.

  An updater passed to \<open>setExercises\<close> copies only the outer array (\<open>[...prev]\<close>) and
  writes into the exercise objects it shares with the \<open>exercises\<close> that the handler
  holds. React may run such an updater inside the \<open>setExercises\<close> call or later, when it
  next renders; a handler that reads \<open>exercises\<close> after queuing an updater sees the
  updater's writes in the first case and not in the second. The handler that does so
  (\<open>completeSet\<close>) takes the case as its first argument \<open>eager\<close>.

  JavaScript numbers that the screen stores (\<open>parseInt(value) || 0\<close>, seconds, indices) are
  modelled as \<open>int\<close>; an optional number (\<open>number | undefined\<close>) is an \<open>int option\<close>.
  Record fields carry a short prefix where two interfaces of the source use one name
  (\<open>id\<close>, \<open>notes\<close>, \<open>completed\<close>, \<open>restTime\<close>, \<open>exercises\<close>).
\<close>

subsection \<open>Data\<close>

type_synonym number = int

text \<open>\<open>interface ActiveSet extends WorkoutSet { id: string; completed: boolean }\<close>, with the
  fields of \<open>WorkoutSet\<close> that the screen reads and writes.\<close>

record ActiveSet =
  set_id :: string
  set_reps :: "number option"
  set_weight :: "number option"
  set_duration :: "number option"
  set_restTime :: "number option"
  set_completed :: bool
  set_notes :: string

text \<open>\<open>Partial<ActiveSet>\<close>: a key is absent (\<open>None\<close>) or present with a value.\<close>

record PartialSet =
  p_id :: "string option"
  p_reps :: "number option option"
  p_weight :: "number option option"
  p_duration :: "number option option"
  p_restTime :: "number option option"
  p_completed :: "bool option"
  p_notes :: "string option"

record ActiveExercise =
  exerciseId :: string
  exerciseName :: string
  sets :: "ActiveSet list"
  currentSetIndex :: int
  ex_notes :: string

text \<open>The template as the data layer returns it (\<open>getWorkoutTemplateById\<close>): an entry of
  \<open>sets_config\<close> is untyped (\<open>set: any\<close>); \<open>None\<close> for \<open>tpl_exercises\<close> or \<open>sets_config\<close> is a
  value for which \<open>Array.isArray\<close> is false; \<open>None\<close> for \<open>exercise\<close> is a missing join.\<close>

record SetConfig =
  cfg_reps :: "number option"
  cfg_weight :: "number option"
  cfg_duration :: "number option"
  cfg_restTime :: "number option"

record ExerciseRef =
  ref_id :: string
  ref_name :: string

record TemplateExercise =
  exercise :: "ExerciseRef option"
  sets_config :: "SetConfig list option"
  te_notes :: "string option"

record WorkoutTemplate =
  tpl_id :: string
  tpl_name :: string
  tpl_exercises :: "TemplateExercise list option"

record SessionExercise =
  se_exerciseId :: string
  se_sets :: "ActiveSet list"
  se_notes :: string

record WorkoutSession =
  ws_id :: string
  clientId :: string
  templateId :: string
  date :: string
  startTime :: string
  endTime :: "string option"
  ws_exercises :: "SessionExercise list"
  ws_notes :: "string option"
  ws_completed :: bool
  synced :: bool

text \<open>The \<open>useState\<close> cells of \<open>StartWorkoutScreen\<close>.\<close>

record screen =
  template :: "WorkoutTemplate option"
  workoutSession :: "WorkoutSession option"
  exercises :: "ActiveExercise list"
  currentExerciseIndex :: int
  isWorkoutStarted :: bool
  isPaused :: bool
  workoutTime :: number
  restTime :: number
  isResting :: bool
  showRestTimer :: bool
  showFinishModal :: bool
  workoutNotes :: string

text \<open>The initial values passed to \<open>useState\<close>.\<close>

definition initialScreen :: screen where
  "initialScreen =
     \<lparr>template = None, workoutSession = None, exercises = [], currentExerciseIndex = 0,
      isWorkoutStarted = False, isPaused = False, workoutTime = 0, restTime = 0,
      isResting = False, showRestTimer = False, showFinishModal = False,
      workoutNotes = ''''\<rparr>"

subsection \<open>JavaScript operators\<close>

text \<open>\<open>a || d\<close> on strings: the empty string and \<open>undefined\<close> are falsy.\<close>

definition or_string :: "string option \<Rightarrow> string \<Rightarrow> string" where
  "or_string a d = (case a of None \<Rightarrow> d | Some v \<Rightarrow> if v = [] then d else v)"

text \<open>Truthiness of an optional number: \<open>undefined\<close> and \<open>0\<close> are falsy.\<close>

definition truthy :: "number option \<Rightarrow> bool" where
  "truthy a = (case a of None \<Rightarrow> False | Some n \<Rightarrow> n \<noteq> 0)"

definition or_number :: "number option \<Rightarrow> number option \<Rightarrow> number option" where
  "or_number a b = (if truthy a then a else b)"

text \<open>\<open>0 \<le> i < xs.length\<close>: the indices at which \<open>xs[i]\<close> is an element.\<close>

definition in_range :: "int \<Rightarrow> 'a list \<Rightarrow> bool" where
  "in_range i xs = (0 \<le> i \<and> i < int (length xs))"

subsection \<open>Initialisation (lines 159-195)\<close>

text \<open>
  \<open>generateId\<close> (utils/workoutUtils) and the clock are not part of the screen: the
  \<open>k\<close>-th call of \<open>generateId\<close> since the screen was mounted returns \<open>gen k\<close>, and the
  handlers take the ISO timestamp \<open>now\<close> that \<open>new Date().toISOString()\<close> returns.
  The functions return the number of identifiers drawn so far beside their result.
\<close>

definition activeSet :: "string \<Rightarrow> SetConfig \<Rightarrow> ActiveSet" where
  "activeSet i c =
     \<lparr>set_id = i, set_reps = cfg_reps c, set_weight = cfg_weight c,
      set_duration = cfg_duration c, set_restTime = cfg_restTime c,
      set_completed = False, set_notes = ''''\<rparr>"

fun activeSets :: "(nat \<Rightarrow> string) \<Rightarrow> nat \<Rightarrow> SetConfig list \<Rightarrow> ActiveSet list \<times> nat" where
  "activeSets gen k [] = ([], k)"
| "activeSets gen k (c # cs) =
     (let (rest, k') = activeSets gen (Suc k) cs in (activeSet (gen k) c # rest, k'))"

definition activeExercise ::
  "(nat \<Rightarrow> string) \<Rightarrow> nat \<Rightarrow> TemplateExercise \<Rightarrow> ActiveExercise \<times> nat" where
  "activeExercise gen k te =
     (let (ss, k') = (case sets_config te of
                         Some cs \<Rightarrow> activeSets gen k cs
                       | None \<Rightarrow> ([], k))
      in (\<lparr>exerciseId = or_string (map_option ref_id (exercise te)) '''',
           exerciseName = or_string (map_option ref_name (exercise te)) ''Unknown'',
           sets = ss,
           currentSetIndex = 0,
           ex_notes = or_string (te_notes te) ''''\<rparr>, k'))"

fun activeExercises ::
  "(nat \<Rightarrow> string) \<Rightarrow> nat \<Rightarrow> TemplateExercise list \<Rightarrow> ActiveExercise list \<times> nat" where
  "activeExercises gen k [] = ([], k)"
| "activeExercises gen k (te # tes) =
     (let (e, k') = activeExercise gen k te;
          (rest, k'') = activeExercises gen k' tes
      in (e # rest, k''))"

definition initializeExercises ::
  "(nat \<Rightarrow> string) \<Rightarrow> nat \<Rightarrow> WorkoutTemplate \<Rightarrow> screen \<Rightarrow> screen \<times> nat" where
  "initializeExercises gen k t s =
     (case tpl_exercises t of
        None \<Rightarrow> (s\<lparr>exercises := []\<rparr>, k)
      | Some tes \<Rightarrow>
          if length tes = 0 then (s\<lparr>exercises := []\<rparr>, k)
          else (let (es, k') = activeExercises gen k tes in (s\<lparr>exercises := es\<rparr>, k')))"

definition initializeWorkoutSession ::
  "(nat \<Rightarrow> string) \<Rightarrow> nat \<Rightarrow> string \<Rightarrow> WorkoutTemplate \<Rightarrow> screen \<Rightarrow> screen \<times> nat" where
  "initializeWorkoutSession gen k now t s =
     (s\<lparr>workoutSession := Some
          \<lparr>ws_id = gen k, clientId = ''current-user'', templateId = tpl_id t,
           date = takeWhile (\<lambda>c. c \<noteq> CHR ''T'') now, startTime = now, endTime = None,
           ws_exercises = [], ws_notes = None, ws_completed = False, synced = False\<rparr>\<rparr>,
      Suc k)"

text \<open>The planned set configurations of a template entry: none when \<open>sets_config\<close> is not
  an array.\<close>

definition plannedSets :: "TemplateExercise \<Rightarrow> SetConfig list" where
  "plannedSets te = (case sets_config te of Some cs \<Rightarrow> cs | None \<Rightarrow> [])"

text \<open>The successful path of \<open>loadTemplate\<close> (lines 144-147), called with the template
  whose \<open>exercises\<close> the fallback fetch has filled in.\<close>

definition loadTemplate ::
  "(nat \<Rightarrow> string) \<Rightarrow> string \<Rightarrow> WorkoutTemplate \<Rightarrow> screen \<Rightarrow> screen" where
  "loadTemplate gen now t s =
     (let s1 = s\<lparr>template := Some t\<rparr>;
          (s2, k) = initializeExercises gen 0 t s1;
          (s3, k') = initializeWorkoutSession gen k now t s2
      in s3)"

subsection \<open>Workout clock controls (lines 197-208)\<close>

definition startWorkout :: "screen \<Rightarrow> screen" where
  "startWorkout s = s\<lparr>isWorkoutStarted := True, isPaused := False\<rparr>"

definition pauseWorkout :: "screen \<Rightarrow> screen" where
  "pauseWorkout s = s\<lparr>isPaused := True\<rparr>"

definition resumeWorkout :: "screen \<Rightarrow> screen" where
  "resumeWorkout s = s\<lparr>isPaused := False\<rparr>"

subsection \<open>The two timers (lines 78-117)\<close>

text \<open>
  Each effect keeps a one-second interval installed exactly while its condition holds
  and clears it otherwise. A tick is one elapsed second: the interval's callback runs if
  the interval is installed, and nothing happens if it is not. The callbacks read the
  latest value of the cell (\<open>prev\<close>).
\<close>

definition workoutTimerRunning :: "screen \<Rightarrow> bool" where
  "workoutTimerRunning s = (isWorkoutStarted s \<and> \<not> isPaused s)"

definition workoutTimerTick :: "screen \<Rightarrow> screen" where
  "workoutTimerTick s =
     (if workoutTimerRunning s then s\<lparr>workoutTime := workoutTime s + 1\<rparr> else s)"

definition restTimerRunning :: "screen \<Rightarrow> bool" where
  "restTimerRunning s = (isResting s \<and> restTime s > 0)"

definition restTimerTick :: "screen \<Rightarrow> screen" where
  "restTimerTick s =
     (if restTimerRunning s then
        (if restTime s \<le> 1
         then s\<lparr>isResting := False, showRestTimer := False, restTime := 0\<rparr>
         else s\<lparr>restTime := restTime s - 1\<rparr>)
      else s)"

subsection \<open>Completing a set (lines 210-245)\<close>

text \<open>
  \<open>TypeError\<close>: the handler reads a property of \<open>undefined\<close>. \<open>OutsideTypes\<close>: the
  handler runs to its end after writing \<open>sets[setIndex]\<close> beyond the array, which leaves
  holes and an element without the fields of \<open>ActiveSet\<close>; such an array is not a value
  of \<open>ActiveSet list\<close>, and the model stops there. A failure stands for the whole call:
  the updates that the handler had queued before it are not part of the model.

  With \<open>setIndex\<close> out of range, line 222 reads \<open>sets[setIndex].restTime\<close> only if the
  supplied rest time is falsy; it then finds \<open>undefined\<close> at \<open>sets[setIndex]\<close> and throws,
  unless the updater has already written the new element there (\<open>eager\<close>). With
  \<open>exerciseIndex\<close> out of range the handler throws at line 222 or at line 231 (React
  swallows the error of an updater that it runs inside the call).
\<close>

datatype failure = TypeError | OutsideTypes

text \<open>\<open>{ ...old, ...updatedSet, completed: true }\<close>\<close>

definition mergeSet :: "ActiveSet \<Rightarrow> PartialSet \<Rightarrow> ActiveSet" where
  "mergeSet old u =
     \<lparr>set_id = (case p_id u of None \<Rightarrow> set_id old | Some v \<Rightarrow> v),
      set_reps = (case p_reps u of None \<Rightarrow> set_reps old | Some v \<Rightarrow> v),
      set_weight = (case p_weight u of None \<Rightarrow> set_weight old | Some v \<Rightarrow> v),
      set_duration = (case p_duration u of None \<Rightarrow> set_duration old | Some v \<Rightarrow> v),
      set_restTime = (case p_restTime u of None \<Rightarrow> set_restTime old | Some v \<Rightarrow> v),
      set_completed = True,
      set_notes = (case p_notes u of None \<Rightarrow> set_notes old | Some v \<Rightarrow> v)\<rparr>"

text \<open>\<open>updatedSet.restTime\<close>: \<open>undefined\<close> when the key is absent.\<close>

definition suppliedRestTime :: "PartialSet \<Rightarrow> number option" where
  "suppliedRestTime u = (case p_restTime u of None \<Rightarrow> None | Some v \<Rightarrow> v)"

text \<open>The first \<open>setExercises\<close> (lines 211-219), for indices in range.\<close>

definition markCompleted :: "int \<Rightarrow> int \<Rightarrow> PartialSet \<Rightarrow> screen \<Rightarrow> screen" where
  "markCompleted exerciseIndex setIndex updatedSet s =
     (let e = exercises s ! nat exerciseIndex
      in s\<lparr>exercises := (exercises s)[nat exerciseIndex :=
              e\<lparr>sets := (sets e)[nat setIndex :=
                   mergeSet (sets e ! nat setIndex) updatedSet]\<rparr>]\<rparr>)"

text \<open>Line 222. The object \<open>exercises[exerciseIndex]\<close> that it reads is the one whose
  \<open>sets[setIndex]\<close> the updater of lines 211-219 replaces: the read finds the merged set
  if that updater has run (\<open>eager\<close>), and the set as it was if it has not.\<close>

definition restTimeSeconds ::
  "bool \<Rightarrow> screen \<Rightarrow> int \<Rightarrow> int \<Rightarrow> PartialSet \<Rightarrow> number option" where
  "restTimeSeconds eager s exerciseIndex setIndex updatedSet =
     or_number (suppliedRestTime updatedSet)
       (set_restTime
          (sets (exercises (if eager then markCompleted exerciseIndex setIndex updatedSet s
                            else s) ! nat exerciseIndex) ! nat setIndex))"

text \<open>Lines 223-227: \<open>if (restTimeSeconds && restTimeSeconds > 0)\<close>.\<close>

definition startRest :: "number option \<Rightarrow> screen \<Rightarrow> screen" where
  "startRest r s =
     (case r of
        None \<Rightarrow> s
      | Some n \<Rightarrow>
          if n \<noteq> 0 \<and> n > 0
          then s\<lparr>restTime := n, isResting := True, showRestTimer := True\<rparr>
          else s)"

text \<open>Lines 229-244: the lengths are those of the record the handler was called on
  (\<open>sets0\<close>, \<open>exercises0\<close>); the updates go to the latest record.\<close>

definition moveOn :: "nat \<Rightarrow> nat \<Rightarrow> int \<Rightarrow> int \<Rightarrow> screen \<Rightarrow> screen" where
  "moveOn sets0 exercises0 exerciseIndex setIndex s =
     (if setIndex < int sets0 - 1 then
        s\<lparr>exercises := (exercises s)[nat exerciseIndex :=
             (exercises s ! nat exerciseIndex)\<lparr>currentSetIndex := setIndex + 1\<rparr>]\<rparr>
      else if exerciseIndex < int exercises0 - 1 then
        s\<lparr>currentExerciseIndex := exerciseIndex + 1\<rparr>
      else s\<lparr>showFinishModal := True\<rparr>)"

definition completeSet ::
  "bool \<Rightarrow> screen \<Rightarrow> int \<Rightarrow> int \<Rightarrow> PartialSet \<Rightarrow> failure + screen" where
  "completeSet eager s exerciseIndex setIndex updatedSet =
     (if \<not> in_range exerciseIndex (exercises s) then Inl TypeError
      else if \<not> in_range setIndex (sets (exercises s ! nat exerciseIndex)) then
        (if eager \<or> truthy (suppliedRestTime updatedSet) then Inl OutsideTypes
         else Inl TypeError)
      else
        Inr (moveOn (length (sets (exercises s ! nat exerciseIndex))) (length (exercises s))
               exerciseIndex setIndex
               (startRest (restTimeSeconds eager s exerciseIndex setIndex updatedSet)
                  (markCompleted exerciseIndex setIndex updatedSet s))))"

subsection \<open>Rest controls (lines 247-251, 557, 571)\<close>

definition skipRestTimer :: "screen \<Rightarrow> screen" where
  "skipRestTimer s = s\<lparr>isResting := False, showRestTimer := False, restTime := 0\<rparr>"

definition addRestTime :: "screen \<Rightarrow> screen" where
  "addRestTime s = s\<lparr>restTime := restTime s + 30\<rparr>"

definition closeRestTimer :: "screen \<Rightarrow> screen" where
  "closeRestTimer s = s\<lparr>showRestTimer := False\<rparr>"

subsection \<open>Finishing (lines 253-288, 543, 586-590)\<close>

definition openFinishModal :: "screen \<Rightarrow> screen" where
  "openFinishModal s = s\<lparr>showFinishModal := True\<rparr>"

definition closeFinishModal :: "screen \<Rightarrow> screen" where
  "closeFinishModal s = s\<lparr>showFinishModal := False\<rparr>"

definition sessionSet :: "ActiveSet \<Rightarrow> ActiveSet" where
  "sessionSet st =
     \<lparr>set_id = set_id st, set_reps = set_reps st, set_weight = set_weight st,
      set_duration = set_duration st, set_restTime = set_restTime st,
      set_completed = set_completed st, set_notes = set_notes st\<rparr>"

definition sessionExercise :: "ActiveExercise \<Rightarrow> SessionExercise" where
  "sessionExercise e =
     \<lparr>se_exerciseId = exerciseId e, se_sets = map sessionSet (sets e), se_notes = ex_notes e\<rparr>"

text \<open>The record that \<open>finishWorkout\<close> hands to \<open>saveSession\<close>; \<open>None\<close> when it returns at
  line 254 without saving.\<close>

definition finishWorkout :: "screen \<Rightarrow> string \<Rightarrow> WorkoutSession option" where
  "finishWorkout s now =
     (case workoutSession s of
        None \<Rightarrow> None
      | Some w \<Rightarrow>
          Some (w\<lparr>endTime := Some now,
                  ws_exercises := map sessionExercise (exercises s),
                  ws_notes := Some (workoutNotes s),
                  ws_completed := True\<rparr>))"

text \<open>Whether every set of every exercise has been completed.\<close>

definition allSetsCompleted :: "screen \<Rightarrow> bool" where
  "allSetsCompleted s = list_all (\<lambda>e. list_all set_completed (sets e)) (exercises s)"

text \<open>The \<open>completed\<close> flag of the session the screen holds, false while there is
  none.\<close>

definition sessionCompleted :: "screen \<Rightarrow> bool" where
  "sessionCompleted s = (case workoutSession s of None \<Rightarrow> False | Some w \<Rightarrow> ws_completed w)"

subsection \<open>Exercise navigation (lines 506-538)\<close>

definition previousExercise :: "screen \<Rightarrow> screen" where
  "previousExercise s = s\<lparr>currentExerciseIndex := max 0 (currentExerciseIndex s - 1)\<rparr>"

definition nextExercise :: "screen \<Rightarrow> screen" where
  "nextExercise s =
     s\<lparr>currentExerciseIndex :=
         min (int (length (exercises s)) - 1) (currentExerciseIndex s + 1)\<rparr>"

subsection \<open>The rows of the current exercise (lines 312-417)\<close>

text \<open>The component returns a placeholder (lines 398-415) unless a template is loaded and
  \<open>exercises\<close> is not empty; the rows are those of \<open>exercises[currentExerciseIndex]\<close>.\<close>

definition rowShown :: "screen \<Rightarrow> int \<Rightarrow> bool" where
  "rowShown s setIndex =
     (template s \<noteq> None \<and> length (exercises s) \<noteq> 0 \<and>
      in_range (currentExerciseIndex s) (exercises s) \<and>
      in_range setIndex (sets (exercises s ! nat (currentExerciseIndex s))))"

definition currentRow :: "screen \<Rightarrow> int \<Rightarrow> ActiveSet" where
  "currentRow s setIndex = sets (exercises s ! nat (currentExerciseIndex s)) ! nat setIndex"

text \<open>The row's own object, passed as \<open>updatedSet\<close> (line 388): every key is present.\<close>

definition asPartial :: "ActiveSet \<Rightarrow> PartialSet" where
  "asPartial st =
     \<lparr>p_id = Some (set_id st), p_reps = Some (set_reps st), p_weight = Some (set_weight st),
      p_duration = Some (set_duration st), p_restTime = Some (set_restTime st),
      p_completed = Some (set_completed st), p_notes = Some (set_notes st)\<rparr>"

text \<open>
  A press on the right-hand cell of row \<open>setIndex\<close> (lines 378-393). A completed row shows
  a plain \<open>View\<close> there; otherwise the button is \<open>disabled\<close> unless the row is the current
  set, and its \<open>onPress\<close> is \<open>completeSet(currentExerciseIndex, setIndex, set)\<close>. A press
  where nothing can be pressed leaves the screen as it is. The argument \<open>eager\<close> is that
  of \<open>completeSet\<close>.
\<close>

definition pressComplete :: "bool \<Rightarrow> screen \<Rightarrow> int \<Rightarrow> failure + screen" where
  "pressComplete eager s setIndex =
     (if \<not> rowShown s setIndex then Inr s
      else if set_completed (currentRow s setIndex) then Inr s
      else if currentSetIndex (exercises s ! nat (currentExerciseIndex s)) \<noteq> setIndex then Inr s
      else completeSet eager s (currentExerciseIndex s) setIndex
             (asPartial (currentRow s setIndex)))"

text \<open>The text inputs of a row (lines 328-374) are \<open>editable\<close> only while the row is not
  completed; each writes one field of the row. The argument is the parsed number, \<open>None\<close>
  for \<open>NaN\<close>, and \<open>parseInt(value) || 0\<close> stores \<open>0\<close> for \<open>NaN\<close> and for \<open>0\<close>.\<close>

definition parsed_or_0 :: "number option \<Rightarrow> number" where
  "parsed_or_0 v = (case v of None \<Rightarrow> 0 | Some n \<Rightarrow> if n \<noteq> 0 then n else 0)"

definition changeRow :: "screen \<Rightarrow> int \<Rightarrow> (ActiveSet \<Rightarrow> ActiveSet) \<Rightarrow> screen" where
  "changeRow s setIndex f =
     (if rowShown s setIndex \<and> \<not> set_completed (currentRow s setIndex) then
        (let e = exercises s ! nat (currentExerciseIndex s)
         in s\<lparr>exercises := (exercises s)[nat (currentExerciseIndex s) :=
                 e\<lparr>sets := (sets e)[nat setIndex := f (sets e ! nat setIndex)]\<rparr>]\<rparr>)
      else s)"

definition changeReps :: "screen \<Rightarrow> int \<Rightarrow> number option \<Rightarrow> screen" where
  "changeReps s setIndex v = changeRow s setIndex (\<lambda>st. st\<lparr>set_reps := Some (parsed_or_0 v)\<rparr>)"

definition changeWeight :: "screen \<Rightarrow> int \<Rightarrow> number option \<Rightarrow> screen" where
  "changeWeight s setIndex v = changeRow s setIndex (\<lambda>st. st\<lparr>set_weight := Some (parsed_or_0 v)\<rparr>)"

definition changeRestTime :: "screen \<Rightarrow> int \<Rightarrow> number option \<Rightarrow> screen" where
  "changeRestTime s setIndex v =
     changeRow s setIndex (\<lambda>st. st\<lparr>set_restTime := Some (parsed_or_0 v)\<rparr>)"

text \<open>The exercise notes input (lines 489-496) and the workout notes input (line 616).\<close>

definition changeExerciseNotes :: "screen \<Rightarrow> string \<Rightarrow> screen" where
  "changeExerciseNotes s txt =
     (if template s \<noteq> None \<and> in_range (currentExerciseIndex s) (exercises s) then
        s\<lparr>exercises := (exercises s)[nat (currentExerciseIndex s) :=
             (exercises s ! nat (currentExerciseIndex s))\<lparr>ex_notes := txt\<rparr>]\<rparr>
      else s)"

definition setWorkoutNotes :: "screen \<Rightarrow> string \<Rightarrow> screen" where
  "setWorkoutNotes s txt = s\<lparr>workoutNotes := txt\<rparr>"

subsection \<open>The screen as a transition system\<close>

datatype event =
    LoadTemplate "nat \<Rightarrow> string" string WorkoutTemplate
  | StartWorkout
  | PauseWorkout
  | ResumeWorkout
  | WorkoutTimerTick
  | RestTimerTick
  | CompleteSet bool int int PartialSet
  | PressComplete bool int
  | SkipRestTimer
  | AddRestTime
  | CloseRestTimer
  | OpenFinishModal
  | CloseFinishModal
  | PreviousExercise
  | NextExercise
  | ChangeReps int "number option"
  | ChangeWeight int "number option"
  | ChangeRestTime int "number option"
  | ChangeExerciseNotes string
  | SetWorkoutNotes string

fun step :: "screen \<Rightarrow> event \<Rightarrow> failure + screen" where
  "step s (LoadTemplate gen now t) = Inr (loadTemplate gen now t s)"
| "step s StartWorkout = Inr (startWorkout s)"
| "step s PauseWorkout = Inr (pauseWorkout s)"
| "step s ResumeWorkout = Inr (resumeWorkout s)"
| "step s WorkoutTimerTick = Inr (workoutTimerTick s)"
| "step s RestTimerTick = Inr (restTimerTick s)"
| "step s (CompleteSet eager exerciseIndex setIndex updatedSet) =
     completeSet eager s exerciseIndex setIndex updatedSet"
| "step s (PressComplete eager setIndex) = pressComplete eager s setIndex"
| "step s SkipRestTimer = Inr (skipRestTimer s)"
| "step s AddRestTime = Inr (addRestTime s)"
| "step s CloseRestTimer = Inr (closeRestTimer s)"
| "step s OpenFinishModal = Inr (openFinishModal s)"
| "step s CloseFinishModal = Inr (closeFinishModal s)"
| "step s PreviousExercise = Inr (previousExercise s)"
| "step s NextExercise = Inr (nextExercise s)"
| "step s (ChangeReps setIndex v) = Inr (changeReps s setIndex v)"
| "step s (ChangeWeight setIndex v) = Inr (changeWeight s setIndex v)"
| "step s (ChangeRestTime setIndex v) = Inr (changeRestTime s setIndex v)"
| "step s (ChangeExerciseNotes txt) = Inr (changeExerciseNotes s txt)"
| "step s (SetWorkoutNotes txt) = Inr (setWorkoutNotes s txt)"

text \<open>The screens that the mounted component can reach, whatever the handlers are
  called with.\<close>

inductive reachable :: "screen \<Rightarrow> bool" where
  mounted: "reachable initialScreen"
| after: "reachable s \<Longrightarrow> step s e = Inr s' \<Longrightarrow> reachable s'"

text \<open>A sequence of events, stopping at the first failure.\<close>

fun run :: "screen \<Rightarrow> event list \<Rightarrow> failure + screen" where
  "run s [] = Inr s"
| "run s (e # es) = (case step s e of Inl f \<Rightarrow> Inl f | Inr s' \<Rightarrow> run s' es)"

subsection \<open>Sample data\<close>

definition demoEntries :: "TemplateExercise list" where
  "demoEntries =
     [\<lparr>exercise = Some \<lparr>ref_id = ''e1'', ref_name = ''Squat''\<rparr>,
       sets_config = Some
         [\<lparr>cfg_reps = Some 10, cfg_weight = Some 50, cfg_duration = None, cfg_restTime = Some 30\<rparr>,
          \<lparr>cfg_reps = Some 8, cfg_weight = Some 55, cfg_duration = None, cfg_restTime = Some 0\<rparr>],
       te_notes = None\<rparr>,
      \<lparr>exercise = Some \<lparr>ref_id = ''e2'', ref_name = ''Lunge''\<rparr>,
       sets_config = Some
         [\<lparr>cfg_reps = Some 12, cfg_weight = None, cfg_duration = None, cfg_restTime = Some 45\<rparr>],
       te_notes = Some ''slow''\<rparr>]"

definition demoTemplate :: WorkoutTemplate where
  "demoTemplate = \<lparr>tpl_id = ''t1'', tpl_name = ''Legs'', tpl_exercises = Some demoEntries\<rparr>"

definition demoIds :: "nat \<Rightarrow> string" where
  "demoIds k = replicate (Suc k) CHR ''i''"

definition noSetsTemplate :: WorkoutTemplate where
  "noSetsTemplate =
     \<lparr>tpl_id = ''t2'', tpl_name = ''Empty entry'',
      tpl_exercises = Some
        [\<lparr>exercise = Some \<lparr>ref_id = ''e1'', ref_name = ''Squat''\<rparr>,
          sets_config = Some [], te_notes = None\<rparr>]\<rparr>"

text \<open>The screen after \<open>demoTemplate\<close> has been loaded, written out.\<close>

definition demoNow :: string where
  "demoNow = ''2024-01-02T10:00:00.000Z''"

definition demoSession :: WorkoutSession where
  "demoSession =
     \<lparr>ws_id = ''iiii'', clientId = ''current-user'', templateId = ''t1'',
      date = ''2024-01-02'', startTime = demoNow, endTime = None,
      ws_exercises = [], ws_notes = None, ws_completed = False, synced = False\<rparr>"

definition squat1 :: ActiveSet where
  "squat1 = \<lparr>set_id = ''i'', set_reps = Some 10, set_weight = Some 50, set_duration = None,
             set_restTime = Some 30, set_completed = False, set_notes = ''''\<rparr>"

definition squat2 :: ActiveSet where
  "squat2 = \<lparr>set_id = ''ii'', set_reps = Some 8, set_weight = Some 55, set_duration = None,
             set_restTime = Some 0, set_completed = False, set_notes = ''''\<rparr>"

definition lunge1 :: ActiveSet where
  "lunge1 = \<lparr>set_id = ''iii'', set_reps = Some 12, set_weight = None, set_duration = None,
             set_restTime = Some 45, set_completed = False, set_notes = ''''\<rparr>"

definition demoScreen :: screen where
  "demoScreen =
     \<lparr>template = Some demoTemplate, workoutSession = Some demoSession,
      exercises =
        [\<lparr>exerciseId = ''e1'', exerciseName = ''Squat'', sets = [squat1, squat2],
          currentSetIndex = 0, ex_notes = ''''\<rparr>,
         \<lparr>exerciseId = ''e2'', exerciseName = ''Lunge'', sets = [lunge1],
          currentSetIndex = 0, ex_notes = ''slow''\<rparr>],
      currentExerciseIndex = 0, isWorkoutStarted = False, isPaused = False,
      workoutTime = 0, restTime = 0, isResting = False, showRestTimer = False,
      showFinishModal = False, workoutNotes = ''''\<rparr>"

text \<open>The same screen after the three sets have been completed from their rows, in
  order.\<close>

definition demoDone :: screen where
  "demoDone =
     \<lparr>template = Some demoTemplate, workoutSession = Some demoSession,
      exercises =
        [\<lparr>exerciseId = ''e1'', exerciseName = ''Squat'',
          sets = [squat1\<lparr>set_completed := True\<rparr>, squat2\<lparr>set_completed := True\<rparr>],
          currentSetIndex = 1, ex_notes = ''''\<rparr>,
         \<lparr>exerciseId = ''e2'', exerciseName = ''Lunge'',
          sets = [lunge1\<lparr>set_completed := True\<rparr>],
          currentSetIndex = 0, ex_notes = ''slow''\<rparr>],
      currentExerciseIndex = 1, isWorkoutStarted = False, isPaused = False,
      workoutTime = 0, restTime = 45, isResting = True, showRestTimer = True,
      showFinishModal = True, workoutNotes = ''''\<rparr>"

text \<open>Values a caller may pass to \<open>completeSet\<close>: no key at all, and new repetitions
  with a rest of a minute.\<close>

definition noValues :: PartialSet where
  "noValues = \<lparr>p_id = None, p_reps = None, p_weight = None, p_duration = None,
               p_restTime = None, p_completed = None, p_notes = None\<rparr>"

definition otherValues :: PartialSet where
  "otherValues = \<lparr>p_id = None, p_reps = Some (Some 99), p_weight = None, p_duration = None,
                  p_restTime = Some (Some 60), p_completed = None, p_notes = None\<rparr>"

text \<open>\<open>demoScreen\<close> after \<open>completeSet(0, 0, {})\<close>, and after a second call on the same
  set with \<open>otherValues\<close>.\<close>

definition demoAfterFirst :: screen where
  "demoAfterFirst =
     demoScreen\<lparr>exercises :=
        [\<lparr>exerciseId = ''e1'', exerciseName = ''Squat'',
          sets = [squat1\<lparr>set_completed := True\<rparr>, squat2],
          currentSetIndex = 1, ex_notes = ''''\<rparr>,
         \<lparr>exerciseId = ''e2'', exerciseName = ''Lunge'', sets = [lunge1],
          currentSetIndex = 0, ex_notes = ''slow''\<rparr>],
       restTime := 30, isResting := True, showRestTimer := True\<rparr>"

definition demoAfterSecond :: screen where
  "demoAfterSecond =
     demoScreen\<lparr>exercises :=
        [\<lparr>exerciseId = ''e1'', exerciseName = ''Squat'',
          sets = [squat1\<lparr>set_reps := Some 99, set_restTime := Some 60, set_completed := True\<rparr>,
                  squat2],
          currentSetIndex = 1, ex_notes = ''''\<rparr>,
         \<lparr>exerciseId = ''e2'', exerciseName = ''Lunge'', sets = [lunge1],
          currentSetIndex = 0, ex_notes = ''slow''\<rparr>],
       restTime := 60, isResting := True, showRestTimer := True\<rparr>"

text \<open>\<open>demoAfterFirst\<close> after the second set of the first exercise has been completed
  from its row: the set plans no rest, and the screen moves to the second exercise.\<close>

definition demoBeforeLast :: screen where
  "demoBeforeLast =
     demoScreen\<lparr>exercises :=
        [\<lparr>exerciseId = ''e1'', exerciseName = ''Squat'',
          sets = [squat1\<lparr>set_completed := True\<rparr>, squat2\<lparr>set_completed := True\<rparr>],
          currentSetIndex = 1, ex_notes = ''''\<rparr>,
         \<lparr>exerciseId = ''e2'', exerciseName = ''Lunge'', sets = [lunge1],
          currentSetIndex = 0, ex_notes = ''slow''\<rparr>],
       currentExerciseIndex := 1,
       restTime := 30, isResting := True, showRestTimer := True\<rparr>"

text \<open>Values with a rest of one second, and \<open>demoScreen\<close> after \<open>completeSet\<close> with
  them.\<close>

definition oneSecond :: PartialSet where
  "oneSecond = \<lparr>p_id = None, p_reps = None, p_weight = None, p_duration = None,
                p_restTime = Some (Some 1), p_completed = None, p_notes = None\<rparr>"

definition demoShortRest :: screen where
  "demoShortRest =
     demoScreen\<lparr>exercises :=
        [\<lparr>exerciseId = ''e1'', exerciseName = ''Squat'',
          sets = [squat1\<lparr>set_restTime := Some 1, set_completed := True\<rparr>, squat2],
          currentSetIndex = 1, ex_notes = ''''\<rparr>,
         \<lparr>exerciseId = ''e2'', exerciseName = ''Lunge'', sets = [lunge1],
          currentSetIndex = 0, ex_notes = ''slow''\<rparr>],
       restTime := 1, isResting := True, showRestTimer := True\<rparr>"


definition demoNoRest :: screen where
  "demoNoRest =
     demoScreen\<lparr>exercises :=
        [\<lparr>exerciseId = ''e1'', exerciseName = ''Squat'',
          sets = [squat1\<lparr>set_restTime := Some 0, set_completed := True\<rparr>, squat2],
          currentSetIndex = 1, ex_notes = ''''\<rparr>,
         \<lparr>exerciseId = ''e2'', exerciseName = ''Lunge'', sets = [lunge1],
          currentSetIndex = 0, ex_notes = ''slow''\<rparr>]\<rparr>"

section \<open>Initialisation: results\<close>

lemma activeSets_length: "length (fst (activeSets gen k cs)) = length cs"
  by (induction cs arbitrary: k) (simp_all add: split_beta)

lemma activeSets_not_completed:
  "st \<in> set (fst (activeSets gen k cs)) \<Longrightarrow> \<not> set_completed st"
  by (induction cs arbitrary: k) (auto simp: split_beta activeSet_def)

lemma activeExercise_sets_length:
  "length (sets (fst (activeExercise gen k te))) = length (plannedSets te)"
  by (simp add: activeExercise_def plannedSets_def split_beta activeSets_length
      split: option.splits)

lemma activeExercise_fresh:
  "currentSetIndex (fst (activeExercise gen k te)) = 0 \<and>
   (\<forall>st \<in> set (sets (fst (activeExercise gen k te))). \<not> set_completed st)"
  by (auto simp: activeExercise_def split_beta dest: activeSets_not_completed
      split: option.splits)

lemma activeExercise_id:
  "exerciseId (fst (activeExercise gen k te)) = or_string (map_option ref_id (exercise te)) ''''"
  by (simp add: activeExercise_def split_beta)

lemma activeExercises_length: "length (fst (activeExercises gen k tes)) = length tes"
  by (induction tes arbitrary: k) (simp_all add: split_beta)

lemma activeExercises_nth:
  "i < length tes \<Longrightarrow>
   \<exists>k'. fst (activeExercises gen k tes) ! i = fst (activeExercise gen k' (tes ! i))"
proof (induction tes arbitrary: k i)
  case Nil
  then show ?case by simp
next
  case (Cons te tes)
  show ?case
  proof (cases i)
    case 0
    then show ?thesis by (auto simp: split_beta)
  next
    case (Suc j)
    with Cons.prems have "j < length tes" by simp
    from Cons.IH [OF this, of "snd (activeExercise gen k te)"] Suc
    show ?thesis by (simp add: split_beta)
  qed
qed

text \<open>
  Claim C5, as amended. The claim says that initialisation fails (an empty or error state)
  when the template list is empty or when an entry has zero planned sets. The code returns
  the empty exercise list exactly when the template's exercise list is empty or is not an
  array; an entry with zero planned sets does not make it fail: the result has one exercise
  per template entry.
\<close>

theorem initializeExercises_empty_iff:
  "(exercises (fst (initializeExercises gen k t s)) = []) =
     (tpl_exercises t = None \<or> tpl_exercises t = Some []) \<and>
   length (exercises (fst (initializeExercises gen k t s))) =
     (case tpl_exercises t of None \<Rightarrow> 0 | Some tes \<Rightarrow> length tes)"
proof (cases "tpl_exercises t")
  case None
  then show ?thesis by (simp add: initializeExercises_def)
next
  case (Some tes)
  have "length (fst (activeExercises gen k tes)) = length tes"
    by (rule activeExercises_length)
  with Some show ?thesis
    by (cases tes) (simp_all add: initializeExercises_def split_beta)
qed

text \<open>
  Claim C5 as stated fails: a template whose only entry has zero planned sets is
  initialised to a screen with one exercise that has no sets, not to the empty state.
\<close>

theorem initialize_zero_sets_counterexample:
  "exercises (fst (initializeExercises demoIds 0 noSetsTemplate initialScreen)) =
     [\<lparr>exerciseId = ''e1'', exerciseName = ''Squat'', sets = [], currentSetIndex = 0,
       ex_notes = ''''\<rparr>]"
  by (simp add: initializeExercises_def noSetsTemplate_def activeExercise_def or_string_def)

text \<open>
  Claim C6. For a template with \<open>N\<close> entries whose \<open>i\<close>-th entry has \<open>k\<^sub>i\<close> planned set
  configurations, initialisation produces exactly \<open>N\<close> exercises in template order (the
  \<open>i\<close>-th carries the identifier of the \<open>i\<close>-th entry), the \<open>i\<close>-th with exactly \<open>k\<^sub>i\<close>
  sets, none of them completed, and with its set cursor at 0.
\<close>

theorem initializeExercises_shape:
  assumes "tpl_exercises t = Some tes"
  shows "length (exercises (fst (initializeExercises gen k t s))) = length tes \<and>
    (\<forall>i < length tes.
       exerciseId (exercises (fst (initializeExercises gen k t s)) ! i) =
         or_string (map_option ref_id (exercise (tes ! i))) '''' \<and>
       length (sets (exercises (fst (initializeExercises gen k t s)) ! i)) =
         length (plannedSets (tes ! i)) \<and>
       currentSetIndex (exercises (fst (initializeExercises gen k t s)) ! i) = 0 \<and>
       (\<forall>st \<in> set (sets (exercises (fst (initializeExercises gen k t s)) ! i)).
          \<not> set_completed st))"
proof -
  have ex: "exercises (fst (initializeExercises gen k t s)) = fst (activeExercises gen k tes)"
    using assms by (cases tes) (simp_all add: initializeExercises_def split_beta)
  have "\<forall>i < length tes.
       exerciseId (fst (activeExercises gen k tes) ! i) =
         or_string (map_option ref_id (exercise (tes ! i))) '''' \<and>
       length (sets (fst (activeExercises gen k tes) ! i)) = length (plannedSets (tes ! i)) \<and>
       currentSetIndex (fst (activeExercises gen k tes) ! i) = 0 \<and>
       (\<forall>st \<in> set (sets (fst (activeExercises gen k tes) ! i)). \<not> set_completed st)"
  proof (intro allI impI)
    fix i assume "i < length tes"
    then obtain k' where
      "fst (activeExercises gen k tes) ! i = fst (activeExercise gen k' (tes ! i))"
      using activeExercises_nth by blast
    then show "exerciseId (fst (activeExercises gen k tes) ! i) =
         or_string (map_option ref_id (exercise (tes ! i))) '''' \<and>
       length (sets (fst (activeExercises gen k tes) ! i)) = length (plannedSets (tes ! i)) \<and>
       currentSetIndex (fst (activeExercises gen k tes) ! i) = 0 \<and>
       (\<forall>st \<in> set (sets (fst (activeExercises gen k tes) ! i)). \<not> set_completed st)"
      using activeExercise_id [of gen k' "tes ! i"]
        activeExercise_sets_length [of gen k' "tes ! i"]
        activeExercise_fresh [of gen k' "tes ! i"]
      by simp
  qed
  with ex show ?thesis by (simp add: activeExercises_length)
qed

theorem initializeExercises_shape_witness:
  "length (exercises (fst (initializeExercises demoIds 0 demoTemplate initialScreen))) = 2 \<and>
   exerciseId (exercises (fst (initializeExercises demoIds 0 demoTemplate initialScreen)) ! 1) = ''e2'' \<and>
   length (sets (exercises (fst (initializeExercises demoIds 0 demoTemplate initialScreen)) ! 1)) = 1 \<and>
   currentSetIndex (exercises (fst (initializeExercises demoIds 0 demoTemplate initialScreen)) ! 1) = 0"
proof -
  have h: "tpl_exercises demoTemplate = Some demoEntries"
    by (simp add: demoTemplate_def)
  have l: "(1::nat) < length demoEntries"
    by (simp add: demoEntries_def)
  from initializeExercises_shape [OF h, of demoIds 0 initialScreen] l
  show ?thesis
    by (auto simp: demoEntries_def plannedSets_def or_string_def)
qed

section \<open>Sample data: results\<close>

lemma demoScreen_loaded: "loadTemplate demoIds demoNow demoTemplate initialScreen = demoScreen"
  by (simp add: loadTemplate_def initializeExercises_def initializeWorkoutSession_def
      demoTemplate_def demoEntries_def activeExercise_def activeSet_def or_string_def
      demoIds_def initialScreen_def demoScreen_def demoSession_def demoNow_def
      squat1_def squat2_def lunge1_def)

section \<open>Sample runs\<close>

lemmas demo_defs =
  demoScreen_def demoAfterFirst_def demoAfterSecond_def demoBeforeLast_def demoDone_def
  demoShortRest_def demoNoRest_def demoSession_def squat1_def squat2_def lunge1_def

lemmas completeSet_defs =
  completeSet_def in_range_def markCompleted_def restTimeSeconds_def startRest_def
  moveOn_def or_number_def truthy_def suppliedRestTime_def mergeSet_def

lemma press_first: "pressComplete eager demoScreen 0 = Inr demoAfterFirst"
  by (cases eager)
    (simp_all add: pressComplete_def rowShown_def currentRow_def asPartial_def
      completeSet_defs demo_defs)

lemma press_second: "pressComplete eager demoAfterFirst 1 = Inr demoBeforeLast"
  by (cases eager)
    (simp_all add: pressComplete_def rowShown_def currentRow_def asPartial_def
      completeSet_defs demo_defs)

lemma press_last: "pressComplete eager demoBeforeLast 0 = Inr demoDone"
  by (cases eager)
    (simp_all add: pressComplete_def rowShown_def currentRow_def asPartial_def
      completeSet_defs demo_defs)

lemma complete_first: "completeSet eager demoScreen 0 0 noValues = Inr demoAfterFirst"
  by (cases eager) (simp_all add: noValues_def completeSet_defs demo_defs)

lemma complete_again: "completeSet eager demoAfterFirst 0 0 otherValues = Inr demoAfterSecond"
  by (cases eager) (simp_all add: otherValues_def completeSet_defs demo_defs)

lemma complete_last: "completeSet eager demoBeforeLast 1 0 noValues = Inr demoDone"
  by (cases eager) (simp_all add: noValues_def completeSet_defs demo_defs)

lemma complete_short: "completeSet eager demoScreen 0 0 oneSecond = Inr demoShortRest"
  by (cases eager) (simp_all add: oneSecond_def completeSet_defs demo_defs)

lemma run_reachable: "reachable s \<Longrightarrow> run s es = Inr s' \<Longrightarrow> reachable s'"
proof (induction es arbitrary: s)
  case Nil
  then show ?case by simp
next
  case (Cons e es)
  then show ?case
    by (auto split: sum.splits intro: reachable.after)
qed

lemma reachable_demoScreen: "reachable demoScreen"
proof -
  have "step initialScreen (LoadTemplate demoIds demoNow demoTemplate) = Inr demoScreen"
    by (simp add: demoScreen_loaded)
  with reachable.mounted show ?thesis by (rule reachable.after)
qed

lemma reachable_demoBeforeLast: "reachable demoBeforeLast"
proof -
  have "run demoScreen [PressComplete True 0, PressComplete True 1] = Inr demoBeforeLast"
    by (simp add: press_first press_second)
  with reachable_demoScreen show ?thesis by (rule run_reachable)
qed

lemma reachable_demoShortRest: "reachable demoShortRest"
proof -
  have "step demoScreen (CompleteSet True 0 0 oneSecond) = Inr demoShortRest"
    by (simp add: complete_short)
  with reachable_demoScreen show ?thesis by (rule reachable.after)
qed

section \<open>Completing a set: results\<close>

lemma in_range_nat: "in_range i xs \<Longrightarrow> nat i < length xs"
  by (simp add: in_range_def nat_less_iff)

lemma completeSet_Inr:
  "completeSet eager s ei si u = Inr s' \<Longrightarrow>
     in_range ei (exercises s) \<and> in_range si (sets (exercises s ! nat ei)) \<and>
     s' = moveOn (length (sets (exercises s ! nat ei))) (length (exercises s)) ei si
            (startRest (restTimeSeconds eager s ei si u) (markCompleted ei si u s))"
  by (auto simp: completeSet_def split: if_splits)

lemma completeSet_in_range:
  "in_range ei (exercises s) \<Longrightarrow> in_range si (sets (exercises s ! nat ei)) \<Longrightarrow>
   completeSet eager s ei si u =
     Inr (moveOn (length (sets (exercises s ! nat ei))) (length (exercises s)) ei si
            (startRest (restTimeSeconds eager s ei si u) (markCompleted ei si u s)))"
  by (simp add: completeSet_def)

lemma startRest_frame:
  "exercises (startRest r s) = exercises s"
  "workoutSession (startRest r s) = workoutSession s"
  "workoutTime (startRest r s) = workoutTime s"
  "currentExerciseIndex (startRest r s) = currentExerciseIndex s"
  "showFinishModal (startRest r s) = showFinishModal s"
  "template (startRest r s) = template s"
  by (simp_all add: startRest_def split: option.splits)

lemma markCompleted_frame:
  "workoutSession (markCompleted ei si u s) = workoutSession s"
  "workoutTime (markCompleted ei si u s) = workoutTime s"
  "restTime (markCompleted ei si u s) = restTime s"
  "isResting (markCompleted ei si u s) = isResting s"
  "showRestTimer (markCompleted ei si u s) = showRestTimer s"
  "currentExerciseIndex (markCompleted ei si u s) = currentExerciseIndex s"
  "showFinishModal (markCompleted ei si u s) = showFinishModal s"
  "template (markCompleted ei si u s) = template s"
  by (simp_all add: markCompleted_def Let_def)

lemma moveOn_frame:
  "workoutSession (moveOn a b ei si s) = workoutSession s"
  "workoutTime (moveOn a b ei si s) = workoutTime s"
  "restTime (moveOn a b ei si s) = restTime s"
  "isResting (moveOn a b ei si s) = isResting s"
  "showRestTimer (moveOn a b ei si s) = showRestTimer s"
  "template (moveOn a b ei si s) = template s"
  by (simp_all add: moveOn_def)

lemma moveOn_sets:
  "length (exercises (moveOn a b ei si s)) = length (exercises s)"
  "sets (exercises (moveOn a b ei si s) ! j) = sets (exercises s ! j)"
proof -
  show "length (exercises (moveOn a b ei si s)) = length (exercises s)"
    by (simp add: moveOn_def)
  show "sets (exercises (moveOn a b ei si s) ! j) = sets (exercises s ! j)"
    by (cases "nat ei < length (exercises s)") (simp_all add: moveOn_def nth_list_update list_update_beyond)
qed

lemma markCompleted_set:
  assumes "in_range ei (exercises s)" "in_range si (sets (exercises s ! nat ei))"
  shows "sets (exercises (markCompleted ei si u s) ! nat ei) ! nat si =
           mergeSet (sets (exercises s ! nat ei) ! nat si) u"
  using assms by (simp add: markCompleted_def Let_def in_range_nat)

lemma completeSet_completed:
  assumes "completeSet eager s ei si u = Inr s'"
  shows "set_completed (sets (exercises s' ! nat ei) ! nat si)"
proof -
  from completeSet_Inr [OF assms]
  have r: "in_range ei (exercises s)" "in_range si (sets (exercises s ! nat ei))"
    and s': "s' = moveOn (length (sets (exercises s ! nat ei))) (length (exercises s)) ei si
            (startRest (restTimeSeconds eager s ei si u) (markCompleted ei si u s))"
    by simp_all
  have "sets (exercises s' ! nat ei) ! nat si = mergeSet (sets (exercises s ! nat ei) ! nat si) u"
    by (simp add: s' moveOn_sets startRest_frame markCompleted_set [OF r])
  then show ?thesis by (simp add: mergeSet_def)
qed

text \<open>
  Claim C2, as amended. \<open>completeSet\<close> has no check of its own: a second call on the same
  indices succeeds again. A completed set is protected by the screen: once \<open>completeSet\<close>
  has succeeded on \<open>(exerciseIndex, setIndex)\<close> that set is completed, its row shows no
  button, and a press on that row, with the screen showing that exercise, leaves the whole
  screen state unchanged.
\<close>

theorem completed_row_press_unchanged:
  assumes "completeSet eager s exerciseIndex setIndex u = Inr s'"
  shows "set_completed (sets (exercises s' ! nat exerciseIndex) ! nat setIndex) \<and>
         pressComplete eager' (s'\<lparr>currentExerciseIndex := exerciseIndex\<rparr>) setIndex =
           Inr (s'\<lparr>currentExerciseIndex := exerciseIndex\<rparr>)"
  using completeSet_completed [OF assms]
  by (simp add: pressComplete_def currentRow_def)

theorem completed_row_press_unchanged_witness:
  "completeSet True demoScreen 0 0 noValues = Inr demoAfterFirst \<and>
   set_completed (sets (exercises demoAfterFirst ! 0) ! 0) \<and>
   pressComplete True demoAfterFirst 0 = Inr demoAfterFirst \<and>
   pressComplete False demoAfterFirst 0 = Inr demoAfterFirst"
proof -
  have h: "completeSet True demoScreen 0 0 noValues = Inr demoAfterFirst"
    by (rule complete_first)
  have c: "demoAfterFirst\<lparr>currentExerciseIndex := 0\<rparr> = demoAfterFirst"
    by (simp add: demoAfterFirst_def demoScreen_def)
  from completed_row_press_unchanged [OF h, of True]
    completed_row_press_unchanged [OF h, of False] h c
  show ?thesis by simp
qed

text \<open>
  Claim C2 as stated fails: a second call of \<open>completeSet\<close> on the set that the first
  call completed is not rejected; it merges the new values and starts a new rest interval,
  whether or not the updater runs before line 222.
\<close>

theorem completeSet_twice_counterexample:
  "completeSet True demoScreen 0 0 noValues = Inr demoAfterFirst \<and>
   completeSet False demoScreen 0 0 noValues = Inr demoAfterFirst \<and>
   completeSet True demoAfterFirst 0 0 otherValues = Inr demoAfterSecond \<and>
   completeSet False demoAfterFirst 0 0 otherValues = Inr demoAfterSecond \<and>
   demoAfterSecond \<noteq> demoAfterFirst \<and>
   set_reps (sets (exercises demoAfterFirst ! 0) ! 0) = Some 10 \<and>
   set_reps (sets (exercises demoAfterSecond ! 0) ! 0) = Some 99 \<and>
   restTime demoAfterFirst = 30 \<and> restTime demoAfterSecond = 60"
proof -
  have "demoAfterSecond \<noteq> demoAfterFirst \<and>
   set_reps (sets (exercises demoAfterFirst ! 0) ! 0) = Some 10 \<and>
   set_reps (sets (exercises demoAfterSecond ! 0) ! 0) = Some 99 \<and>
   restTime demoAfterFirst = 30 \<and> restTime demoAfterSecond = 60"
    by (simp add: demo_defs)
  then show ?thesis
    by (simp only: complete_first complete_again simp_thms)
qed

text \<open>
  Claim C4, as amended. \<open>completeSet\<close> does not compare \<open>setIndex\<close> with the exercise's
  \<open>currentSetIndex\<close>: called on another set it completes that set. The restriction is in
  the screen: the button of a row other than the current set is disabled, so a press on
  such a row leaves the screen, and with it the set, unchanged.
\<close>

theorem other_row_press_unchanged:
  assumes "setIndex \<noteq> currentSetIndex (exercises s ! nat (currentExerciseIndex s))"
  shows "pressComplete eager s setIndex = Inr s"
  using assms by (simp add: pressComplete_def)

theorem other_row_press_unchanged_witness:
  "rowShown demoScreen 1 \<and>
   currentSetIndex (exercises demoScreen ! nat (currentExerciseIndex demoScreen)) = 0 \<and>
   \<not> set_completed (currentRow demoScreen 1) \<and>
   pressComplete True demoScreen 1 = Inr demoScreen \<and>
   pressComplete False demoScreen 1 = Inr demoScreen"
proof -
  have h: "1 \<noteq> currentSetIndex (exercises demoScreen ! nat (currentExerciseIndex demoScreen))"
    by (simp add: demoScreen_def)
  from other_row_press_unchanged [OF h, of True] other_row_press_unchanged [OF h, of False]
  show ?thesis
    by (simp add: rowShown_def in_range_def currentRow_def demoScreen_def squat2_def)
qed

text \<open>
  Claim C4 as stated fails: the first exercise of the sample screen has two sets and its
  cursor is at set 0; \<open>completeSet\<close> on set 1 succeeds and completes set 1, whether or not
  the updater runs before line 222.
\<close>

theorem completeSet_other_set_counterexample:
  "length (sets (exercises demoScreen ! 0)) = 2 \<and>
   currentSetIndex (exercises demoScreen ! 0) = 0 \<and>
   \<not> set_completed (sets (exercises demoScreen ! 0) ! 1) \<and>
   \<not> isl (completeSet True demoScreen 0 1 noValues) \<and>
   set_completed (sets (exercises (projr (completeSet True demoScreen 0 1 noValues)) ! 0) ! 1) \<and>
   \<not> isl (completeSet False demoScreen 0 1 noValues) \<and>
   set_completed (sets (exercises (projr (completeSet False demoScreen 0 1 noValues)) ! 0) ! 1)"
  by (simp add: noValues_def completeSet_defs demoScreen_def squat2_def)




text \<open>The button of a row passes the row itself, so a press does the same whenever the
  updater runs.\<close>

lemma pressComplete_any_order: "pressComplete True s setIndex = pressComplete False s setIndex"
proof (cases "rowShown s setIndex")
  case False
  then show ?thesis by (simp add: pressComplete_def)
next
  case True
  then have r: "in_range (currentExerciseIndex s) (exercises s)"
    "in_range setIndex (sets (exercises s ! nat (currentExerciseIndex s)))"
    by (simp_all add: rowShown_def)
  have "restTimeSeconds True s (currentExerciseIndex s) setIndex (asPartial (currentRow s setIndex)) =
        restTimeSeconds False s (currentExerciseIndex s) setIndex (asPartial (currentRow s setIndex))"
    by (simp add: restTimeSeconds_def markCompleted_set [OF r] mergeSet_def asPartial_def
        currentRow_def suppliedRestTime_def or_number_def)
  with r show ?thesis
    by (simp add: pressComplete_def completeSet_def)
qed

section \<open>Finishing: results\<close>

lemma sessionSet_id: "map sessionSet xs = xs"
  by (rule map_idI) (simp add: sessionSet_def)

text \<open>
  Claim C1, as amended. Whenever a session exists, the record that \<open>finishWorkout\<close> hands
  to the store is the session with the end time, the notes and the exercises filled in and
  with \<open>completed\<close> set to true, whatever the completion state of the sets. The sets are
  copied as they are, so the record still shows which sets were completed.
\<close>

theorem finishWorkout_record:
  assumes "workoutSession s = Some w"
  shows "\<exists>r. finishWorkout s now = Some r \<and> ws_completed r \<and>
    startTime r = startTime w \<and> endTime r = Some now \<and> ws_notes r = Some (workoutNotes s) \<and>
    map se_sets (ws_exercises r) = map sets (exercises s)"
  using assms by (simp add: finishWorkout_def sessionExercise_def sessionSet_id comp_def)

theorem finishWorkout_record_witness:
  "workoutSession demoAfterFirst = Some demoSession \<and>
   map_option ws_completed (finishWorkout demoAfterFirst demoNow) = Some True \<and>
   map_option (map se_sets \<circ> ws_exercises) (finishWorkout demoAfterFirst demoNow) =
     Some [[squat1\<lparr>set_completed := True\<rparr>, squat2], [lunge1]]"
proof -
  have h: "workoutSession demoAfterFirst = Some demoSession"
    by (simp add: demoAfterFirst_def demoScreen_def)
  from finishWorkout_record [OF h, of demoNow] h show ?thesis
    by (auto simp: demoAfterFirst_def)
qed

text \<open>
  Claim C1 as stated fails: on the freshly loaded sample screen no set is completed and the
  session's own flag is false, and the record that \<open>finishWorkout\<close> produces has
  \<open>completed\<close> true.
\<close>

theorem finishWorkout_forces_completed_counterexample:
  "\<not> allSetsCompleted demoScreen \<and>
   \<not> sessionCompleted demoScreen \<and>
   map_option ws_completed (finishWorkout demoScreen demoNow) = Some True"
  by (simp add: allSetsCompleted_def sessionCompleted_def finishWorkout_def demoScreen_def
      demoSession_def squat1_def)

section \<open>Navigation: results\<close>

text \<open>
  Claim C9. The Previous and Next exercise actions change the exercise cursor and nothing
  else: the list of exercises, and with it every set cursor, completion flag and recorded
  value, is the same after the action.
\<close>

theorem navigation_frame:
  "previousExercise s = s\<lparr>currentExerciseIndex := currentExerciseIndex (previousExercise s)\<rparr> \<and>
   nextExercise s = s\<lparr>currentExerciseIndex := currentExerciseIndex (nextExercise s)\<rparr> \<and>
   exercises (previousExercise s) = exercises s \<and>
   exercises (nextExercise s) = exercises s"
  by (simp add: previousExercise_def nextExercise_def)

section \<open>What every handler leaves alone\<close>

lemma completeSet_frame:
  assumes "completeSet eager s ei si u = Inr s'"
  shows "workoutSession s' = workoutSession s" and "workoutTime s' = workoutTime s"
  using completeSet_Inr [OF assms]
  by (simp_all add: moveOn_frame startRest_frame markCompleted_frame)

lemma pressComplete_frame:
  assumes "pressComplete eager s i = Inr s'"
  shows "workoutSession s' = workoutSession s" and "workoutTime s' = workoutTime s"
  using assms by (auto simp: pressComplete_def dest: completeSet_frame split: if_splits)

lemma changeRow_frame:
  "workoutSession (changeRow s i f) = workoutSession s"
  "workoutTime (changeRow s i f) = workoutTime s"
  "restTime (changeRow s i f) = restTime s"
  "isResting (changeRow s i f) = isResting s"
  by (simp_all add: changeRow_def Let_def)

lemma loadTemplate_frame:
  "workoutTime (loadTemplate gen now t s) = workoutTime s"
  "restTime (loadTemplate gen now t s) = restTime s"
  "isResting (loadTemplate gen now t s) = isResting s"
  "\<not> sessionCompleted (loadTemplate gen now t s)"
  by (simp_all add: loadTemplate_def initializeExercises_def initializeWorkoutSession_def
      sessionCompleted_def split_beta Let_def split: option.splits)

lemmas handler_defs =
  startWorkout_def pauseWorkout_def resumeWorkout_def workoutTimerTick_def restTimerTick_def
  skipRestTimer_def addRestTime_def closeRestTimer_def openFinishModal_def
  closeFinishModal_def previousExercise_def nextExercise_def changeReps_def
  changeWeight_def changeRestTime_def changeExerciseNotes_def setWorkoutNotes_def

lemma step_workoutSession:
  assumes "step s e = Inr s'"
  shows "workoutSession s' = workoutSession s \<or> (\<exists>gen now t. e = LoadTemplate gen now t)"
proof (cases e)
  case (CompleteSet eager ei si u)
  with assms show ?thesis by (simp add: completeSet_frame)
next
  case (PressComplete eager i)
  with assms show ?thesis by (simp add: pressComplete_frame)
qed (use assms in \<open>auto simp: handler_defs changeRow_frame split: if_splits\<close>)

lemma step_session:
  assumes "step s e = Inr s'" and "\<not> sessionCompleted s"
  shows "\<not> sessionCompleted s'"
  using step_workoutSession [OF assms(1)] assms
  by (auto simp: loadTemplate_frame) (simp add: sessionCompleted_def)

lemma reachable_session_open: "reachable s \<Longrightarrow> \<not> sessionCompleted s"
proof (induction rule: reachable.induct)
  case mounted
  show ?case by (simp add: sessionCompleted_def initialScreen_def)
next
  case (after s e s')
  then show ?case using step_session [of s e s'] by blast
qed

lemma step_workoutTime:
  assumes "step s e = Inr s'" and "workoutTime s' \<noteq> workoutTime s"
  shows "e = WorkoutTimerTick \<and> workoutTimerRunning s \<and> workoutTime s' = workoutTime s + 1"
proof (cases e)
  case (CompleteSet eager ei si u)
  with assms show ?thesis by (simp add: completeSet_frame)
next
  case (PressComplete eager i)
  with assms show ?thesis by (simp add: pressComplete_frame)
next
  case (LoadTemplate gen now t)
  with assms show ?thesis by (auto simp: loadTemplate_frame)
qed (use assms in \<open>auto simp: handler_defs changeRow_frame split: if_splits\<close>)

lemma completeSet_rest:
  assumes "completeSet eager s ei si u = Inr s'"
    and "0 \<le> restTime s" and "isResting s \<longrightarrow> 0 < restTime s"
  shows "0 \<le> restTime s' \<and> (isResting s' \<longrightarrow> 0 < restTime s')"
  using completeSet_Inr [OF assms(1)] assms(2,3)
  by (auto simp: moveOn_frame startRest_def markCompleted_frame split: option.splits)

lemma pressComplete_rest:
  assumes "pressComplete eager s i = Inr s'"
    and "0 \<le> restTime s" and "isResting s \<longrightarrow> 0 < restTime s"
  shows "0 \<le> restTime s' \<and> (isResting s' \<longrightarrow> 0 < restTime s')"
proof (cases "s' = s")
  case True
  with assms show ?thesis by simp
next
  case False
  with assms(1) have "\<exists>ei u. completeSet eager s ei i u = Inr s'"
    by (auto simp: pressComplete_def split: if_splits)
  with assms(2,3) show ?thesis by (blast dest: completeSet_rest)
qed

lemma step_rest:
  assumes "step s e = Inr s'"
    and "0 \<le> restTime s" and "isResting s \<longrightarrow> 0 < restTime s"
  shows "0 \<le> restTime s' \<and> (isResting s' \<longrightarrow> 0 < restTime s')"
proof (cases e)
  case (CompleteSet eager ei si u)
  with assms show ?thesis by (simp add: completeSet_rest)
next
  case (PressComplete eager i)
  with assms show ?thesis by (simp add: pressComplete_rest)
next
  case (LoadTemplate gen now t)
  with assms show ?thesis by (auto simp: loadTemplate_frame)
next
  case RestTimerTick
  with assms show ?thesis by (auto simp: restTimerTick_def restTimerRunning_def)
qed (use assms in \<open>auto simp: handler_defs changeRow_frame split: if_splits\<close>)

lemma reachable_rest:
  "reachable s \<Longrightarrow> 0 \<le> restTime s \<and> (isResting s \<longrightarrow> 0 < restTime s)"
proof (induction rule: reachable.induct)
  case mounted
  show ?case by (simp add: initialScreen_def)
next
  case (after s e s')
  then show ?case using step_rest [of s e s'] by blast
qed

lemma not_started_ticks: "\<not> isWorkoutStarted s \<Longrightarrow> (workoutTimerTick ^^ d) s = s"
  by (induction d) (simp_all add: workoutTimerTick_def workoutTimerRunning_def)

section \<open>The end of the workout\<close>

text \<open>
  Claim C3, as amended. Completing the final set of the final exercise with \<open>completeSet\<close>
  opens the finish modal (\<open>showFinishModal\<close> becomes true). It does not touch the session:
  the session's \<open>completed\<close> flag stays false, as it is on every screen the component can
  reach; the flag is true only in the record that \<open>finishWorkout\<close> writes.
\<close>

theorem final_set_opens_finish_modal:
  assumes "reachable s"
    and "in_range exerciseIndex (exercises s)"
    and "exerciseIndex = int (length (exercises s)) - 1"
    and "in_range setIndex (sets (exercises s ! nat exerciseIndex))"
    and "setIndex = int (length (sets (exercises s ! nat exerciseIndex))) - 1"
  shows "\<exists>s'. completeSet eager s exerciseIndex setIndex u = Inr s' \<and> showFinishModal s' \<and>
           workoutSession s' = workoutSession s \<and> \<not> sessionCompleted s'"
proof -
  let ?s' = "moveOn (length (sets (exercises s ! nat exerciseIndex))) (length (exercises s))
               exerciseIndex setIndex
               (startRest (restTimeSeconds eager s exerciseIndex setIndex u)
                  (markCompleted exerciseIndex setIndex u s))"
  have c: "completeSet eager s exerciseIndex setIndex u = Inr ?s'"
    by (rule completeSet_in_range [OF assms(2,4)])
  have m: "showFinishModal ?s'"
    using assms(3,5) by (simp add: moveOn_def)
  have w: "workoutSession ?s' = workoutSession s"
    by (simp add: moveOn_frame startRest_frame markCompleted_frame)
  have "\<not> sessionCompleted s"
    by (rule reachable_session_open [OF assms(1)])
  with w have "\<not> sessionCompleted ?s'"
    by (simp add: sessionCompleted_def)
  with c m w show ?thesis by blast
qed

theorem final_set_opens_finish_modal_witness:
  "reachable demoBeforeLast \<and> in_range 1 (exercises demoBeforeLast) \<and>
   1 = int (length (exercises demoBeforeLast)) - 1 \<and>
   in_range 0 (sets (exercises demoBeforeLast ! nat 1)) \<and>
   0 = int (length (sets (exercises demoBeforeLast ! nat 1))) - 1 \<and>
   completeSet True demoBeforeLast 1 0 noValues = Inr demoDone \<and>
   showFinishModal demoDone \<and> \<not> sessionCompleted demoDone"
proof -
  have a: "in_range 1 (exercises demoBeforeLast)"
    by (simp add: in_range_def demo_defs)
  have b: "1 = int (length (exercises demoBeforeLast)) - 1"
    by (simp add: demo_defs)
  have c: "in_range 0 (sets (exercises demoBeforeLast ! nat 1))"
    by (simp add: in_range_def demo_defs)
  have d: "0 = int (length (sets (exercises demoBeforeLast ! nat 1))) - 1"
    by (simp add: demo_defs)
  from final_set_opens_finish_modal [OF reachable_demoBeforeLast a b c d, of True noValues]
  have "showFinishModal demoDone \<and> \<not> sessionCompleted demoDone"
    by (simp add: complete_last)
  with reachable_demoBeforeLast a b c d complete_last show ?thesis by simp
qed

text \<open>
  Claim C3 as stated fails: after the sample template has been loaded and its three sets
  completed in order from their rows, every set is completed and the finish modal is
  open, and the session's \<open>completed\<close> flag is still false, whenever the updaters
  run.
\<close>

theorem session_not_completed_counterexample:
  "run initialScreen
      [LoadTemplate demoIds demoNow demoTemplate,
       PressComplete True 0, PressComplete True 1, PressComplete True 0] = Inr demoDone \<and>
   run initialScreen
      [LoadTemplate demoIds demoNow demoTemplate,
       PressComplete False 0, PressComplete False 1, PressComplete False 0] = Inr demoDone \<and>
   allSetsCompleted demoDone \<and> showFinishModal demoDone \<and> \<not> sessionCompleted demoDone"
proof -
  have "run initialScreen
      [LoadTemplate demoIds demoNow demoTemplate,
       PressComplete True 0, PressComplete True 1, PressComplete True 0] = Inr demoDone"
    by (simp add: demoScreen_loaded press_first press_second press_last)
  moreover have "run initialScreen
      [LoadTemplate demoIds demoNow demoTemplate,
       PressComplete False 0, PressComplete False 1, PressComplete False 0] = Inr demoDone"
    by (simp add: demoScreen_loaded press_first press_second press_last)
  moreover have "allSetsCompleted demoDone \<and> showFinishModal demoDone \<and>
      \<not> sessionCompleted demoDone"
    by (simp add: allSetsCompleted_def sessionCompleted_def demo_defs)
  ultimately show ?thesis by simp
qed

section \<open>The clocks\<close>

text \<open>
  Claim C7. While the workout has not been started, any number \<open>d\<close> of one-second ticks
  leaves the workout clock where it is. Among all the events of the screen, the only one
  that changes the workout clock is a tick of the workout timer while the workout is
  started and not paused, and it adds one second.
\<close>

theorem workout_clock_gated:
  "(\<not> isWorkoutStarted s \<longrightarrow> workoutTime ((workoutTimerTick ^^ d) s) = workoutTime s) \<and>
   (step s e = Inr s' \<and> workoutTime s' \<noteq> workoutTime s \<longrightarrow>
      e = WorkoutTimerTick \<and> isWorkoutStarted s \<and> \<not> isPaused s \<and>
      workoutTime s' = workoutTime s + 1)"
  using step_workoutTime [of s e s']
  by (auto simp: not_started_ticks workoutTimerRunning_def)

theorem workout_clock_gated_witness:
  "\<not> isWorkoutStarted demoScreen \<and>
   workoutTime ((workoutTimerTick ^^ 5) demoScreen) = workoutTime demoScreen \<and>
   step (startWorkout demoScreen) WorkoutTimerTick = Inr (workoutTimerTick (startWorkout demoScreen)) \<and>
   workoutTime (workoutTimerTick (startWorkout demoScreen)) = 1 \<and>
   workoutTime (startWorkout demoScreen) = 0 \<and>
   isWorkoutStarted (startWorkout demoScreen) \<and> \<not> isPaused (startWorkout demoScreen)"
proof -
  have a: "\<not> isWorkoutStarted demoScreen"
    by (simp add: demoScreen_def)
  have b: "step (startWorkout demoScreen) WorkoutTimerTick =
      Inr (workoutTimerTick (startWorkout demoScreen))"
    by simp
  have c: "workoutTime (workoutTimerTick (startWorkout demoScreen)) = 1"
    by (simp add: workoutTimerTick_def workoutTimerRunning_def startWorkout_def demoScreen_def)
  have d: "workoutTime (startWorkout demoScreen) = 0"
    by (simp add: startWorkout_def demoScreen_def)
  from workout_clock_gated [of demoScreen 5] a
  have "workoutTime ((workoutTimerTick ^^ 5) demoScreen) = workoutTime demoScreen"
    by simp
  moreover from workout_clock_gated
    [of "startWorkout demoScreen" 0 WorkoutTimerTick "workoutTimerTick (startWorkout demoScreen)"]
    b c d
  have "isWorkoutStarted (startWorkout demoScreen) \<and> \<not> isPaused (startWorkout demoScreen)"
    by simp
  ultimately show ?thesis using a b c d by simp
qed

text \<open>
  Claim C8. On every screen the component can reach, the rest clock is not negative, and
  while \<open>isResting\<close> holds it is positive; after a tick of the rest timer that leaves the
  rest clock at 0, \<open>isResting\<close> is false.
\<close>

theorem rest_clock_invariant:
  assumes "reachable s"
  shows "(isResting s \<longrightarrow> 0 \<le> restTime s) \<and> 0 \<le> restTime s \<and>
         (isResting s \<longrightarrow> 0 < restTime s) \<and>
         (restTime (restTimerTick s) = 0 \<longrightarrow> \<not> isResting (restTimerTick s))"
proof -
  have "step s RestTimerTick = Inr (restTimerTick s)"
    by simp
  with assms have "reachable (restTimerTick s)"
    by (rule reachable.after)
  from reachable_rest [OF this] reachable_rest [OF assms] show ?thesis
    by auto
qed

theorem rest_clock_invariant_witness:
  "reachable demoShortRest \<and> isResting demoShortRest \<and> restTime demoShortRest = 1 \<and>
   restTimerRunning demoShortRest \<and>
   restTime (restTimerTick demoShortRest) = 0 \<and> \<not> isResting (restTimerTick demoShortRest)"
proof -
  have a: "isResting demoShortRest \<and> restTime demoShortRest = 1 \<and> restTimerRunning demoShortRest"
    by (simp add: restTimerRunning_def demo_defs)
  have b: "restTime (restTimerTick demoShortRest) = 0"
    by (simp add: restTimerTick_def restTimerRunning_def demo_defs)
  from rest_clock_invariant [OF reachable_demoShortRest] b
  have "\<not> isResting (restTimerTick demoShortRest)"
    by simp
  with reachable_demoShortRest a b show ?thesis by simp
qed

end
